theory Spec2Isabelle
  imports Main "HOL-Library.Sublist"
begin

section \<open>JavaScript values\<close>

text \<open>
  A value that can be \<^verbatim>\<open>undefined\<close> is an \<^typ>\<open>'a option\<close>. A thrown error (a rejected
  promise, for an \<^verbatim>\<open>async\<close> function) is the left summand of a result: \<open>Error\<close> is
  \<^verbatim>\<open>new Error(message)\<close>, \<open>ServiceException\<close> a failure raised by an SDK client.
\<close>

datatype js_error =
    Error string
  | ServiceException string

text \<open>The operator \<^verbatim>\<open>!\<close> on a string that may be \<^verbatim>\<open>undefined\<close>: true when absent or empty.\<close>

definition falsy :: "string option \<Rightarrow> bool" where
  "falsy v = (case v of None \<Rightarrow> True | Some s \<Rightarrow> s = [])"

text \<open>A value substituted into a template literal.\<close>

definition templateValue :: "string option \<Rightarrow> string" where
  "templateValue v = (case v of None \<Rightarrow> ''undefined'' | Some s \<Rightarrow> s)"

section \<open>The pipeline construct (lib/pkg-pipeline.ts)\<close>

subsection \<open>Properties of the construct\<close>

datatype LinuxBuildImage = STANDARD_5_0 | OtherBuildImage string

datatype ComputeType = SMALL | MEDIUM | LARGE | X2_LARGE

text \<open>
  The type of \<^verbatim>\<open>lintCommands\<close>, \<^verbatim>\<open>testCommands\<close> and \<^verbatim>\<open>releaseCommands\<close>: four optional
  lists of commands.
\<close>

record Commands =
  install :: "string list option"
  pre_build :: "string list option"
  build :: "string list option"
  post_build :: "string list option"

text \<open>
  The constructor assigns to the properties of the command objects it is given, so the
  objects live in a store and the properties of the construct hold references to them.
  A reference is an index into the store; a new object is put at the end.
\<close>

type_synonym ref = nat

type_synonym heap = "Commands list"

text \<open>
  \<^verbatim>\<open>interface PkgPipelineProps\<close>. The three CodeArtifact properties are declared as
  strings; the constructor tests them when it runs, so here they can be absent.
\<close>

record PkgPipelineProps =
  buildImage :: "LinuxBuildImage option"
  codeArtifactDomain :: "string option"
  codeArtifactRepo :: "string option"
  codeArtifactNamespace :: "string option"
  computeType :: "ComputeType option"
  lintCommands :: "ref option"
  testCommands :: "ref option"
  releaseCommands :: "ref option"
  globalInstallCommands :: "string list option"
  globalPreBuildCommands :: "string list option"
  name :: string
  repoDescription :: "string option"
  releaseBranch :: "string option"

definition alloc :: "Commands \<Rightarrow> heap \<Rightarrow> ref \<times> heap" where
  "alloc c h = (length h, h @ [c])"

text \<open>A destructuring default \<^verbatim>\<open>{ x = { ... } } = props\<close>: the object literal is built only
  when the property is \<^verbatim>\<open>undefined\<close>.\<close>

definition orDefault :: "ref option \<Rightarrow> Commands \<Rightarrow> heap \<Rightarrow> ref \<times> heap" where
  "orDefault r dflt h = (case r of Some a \<Rightarrow> (a, h) | None \<Rightarrow> alloc dflt h)"

text \<open>
  A reference of JavaScript always points to an object: all references of the properties
  point into the store.
\<close>

definition wf_props :: "heap \<Rightarrow> PkgPipelineProps \<Rightarrow> bool" where
  "wf_props h props =
     ((case lintCommands props of None \<Rightarrow> True | Some r \<Rightarrow> r < length h)
      \<and> (case testCommands props of None \<Rightarrow> True | Some r \<Rightarrow> r < length h)
      \<and> (case releaseCommands props of None \<Rightarrow> True | Some r \<Rightarrow> r < length h))"

subsection \<open>The defaults of the commands (lines 145 to 176)\<close>

definition defaultBuildCommands :: "string list" where
  "defaultBuildCommands = [''npm run build'']"

definition defaultLintCommands :: "string list" where
  "defaultLintCommands = [''npm run lint'']"

definition defaultReleaseCommands :: "string list" where
  "defaultReleaseCommands = [''npx semantic-release'']"

definition defaultTestCommands :: "string list" where
  "defaultTestCommands = [''npm run test'']"

text \<open>
  The body of \<^verbatim>\<open>for (const cmd of commands)\<close>. An array is never falsy, so
  \<^verbatim>\<open>!cmd.install\<close> holds exactly when the property is \<^verbatim>\<open>undefined\<close>.
\<close>

definition fillGlobal :: "string list \<Rightarrow> string list \<Rightarrow> heap \<Rightarrow> ref \<Rightarrow> heap" where
  "fillGlobal gi gp h cmd =
     (let h1 = (if install (h ! cmd) = None
                then h[cmd := (h ! cmd)\<lparr>install := Some gi\<rparr>] else h);
          h2 = (if pre_build (h1 ! cmd) = None
                then h1[cmd := (h1 ! cmd)\<lparr>pre_build := Some gp\<rparr>] else h1)
      in h2)"

text \<open>
  The second destructuring of the properties (lines 149 to 166): a command object that
  was not supplied is created with all its defaults. The result is the three references
  \<^verbatim>\<open>lintCommands\<close>, \<^verbatim>\<open>releaseCommands\<close>, \<^verbatim>\<open>testCommands\<close> and the store.
\<close>

definition destructureCommands ::
  "string list \<Rightarrow> string list \<Rightarrow> PkgPipelineProps \<Rightarrow> heap \<Rightarrow> (ref \<times> ref \<times> ref) \<times> heap"
where
  "destructureCommands gi gp props h =
     (let (lint, h1) = orDefault (lintCommands props)
                         \<lparr>install = Some gi, pre_build = Some gp,
                          build = Some defaultLintCommands, post_build = None\<rparr> h;
          (release, h2) = orDefault (releaseCommands props)
                         \<lparr>install = Some gi, pre_build = Some gp,
                          build = Some defaultBuildCommands,
                          post_build = Some defaultReleaseCommands\<rparr> h1;
          (test, h3) = orDefault (testCommands props)
                         \<lparr>install = Some gi, pre_build = Some gp,
                          build = Some defaultTestCommands, post_build = None\<rparr> h2
      in ((lint, release, test), h3))"

text \<open>
  The loop over \<^verbatim>\<open>[lintCommands, releaseCommands, testCommands]\<close> and the four assignments
  after it (lines 167 to 176), each an assignment to a property of an object in the store.
\<close>

definition assignDefaults ::
  "string list \<Rightarrow> string list \<Rightarrow> ref \<Rightarrow> ref \<Rightarrow> ref \<Rightarrow> heap \<Rightarrow> heap"
where
  "assignDefaults gi gp lint release test h3 =
     (let h4 = foldl (fillGlobal gi gp) h3 [lint, release, test];
          h5 = (if build (h4 ! lint) = None
                then h4[lint := (h4 ! lint)\<lparr>build := Some defaultLintCommands\<rparr>] else h4);
          h6 = (if build (h5 ! release) = None
                then h5[release := (h5 ! release)\<lparr>build := Some defaultBuildCommands\<rparr>]
                else h5);
          h7 = (if post_build (h6 ! release) = None
                then h6[release := (h6 ! release)\<lparr>post_build := Some defaultReleaseCommands\<rparr>]
                else h6);
          h8 = (if build (h7 ! test) = None
                then h7[test := (h7 ! test)\<lparr>build := Some defaultTestCommands\<rparr>] else h7)
      in h8)"

definition resolveCommands ::
  "string list \<Rightarrow> string list \<Rightarrow> PkgPipelineProps \<Rightarrow> heap \<Rightarrow> (ref \<times> ref \<times> ref) \<times> heap"
where
  "resolveCommands gi gp props h =
     (case destructureCommands gi gp props h of
        ((lint, release, test), h3) \<Rightarrow>
          ((lint, release, test), assignDefaults gi gp lint release test h3))"

subsection \<open>The resources (lines 178 to 378)\<close>

text \<open>
  The resource \<^verbatim>\<open>"*"\<close> and the values that are known at deployment only: the ARN and
  the name of a construct, the region of the stack, and
  \<^verbatim>\<open>Arn.format({ resource, service }, Stack.of(this))\<close>.
\<close>

datatype cdk_ref =
    AnyResource
  | RepositoryArn
  | PipelineArn
  | PipelineName
  | StackRegion
  | ArnFormat string string

datatype cdk_value = Literal string | Token cdk_ref

text \<open>\<^verbatim>\<open>new PolicyStatement({ actions, resources, conditions })\<close>; a condition is an operator,
  a key and a value.\<close>

datatype PolicyStatement =
  PolicyStatement "string list" "cdk_ref list" "(string \<times> string \<times> string) list"

text \<open>\<^verbatim>\<open>BuildSpec.fromObject({ version, env, phases })\<close>; a phase is its name and its
  \<^verbatim>\<open>commands\<close>.\<close>

datatype BuildSpec =
  BuildSpec string "(string \<times> string) list" "(string \<times> string list option) list"

datatype stage_action =
    CodeCommitSourceAction string string bool string
  | CodeBuildAction string string "string option"

text \<open>
  What the constructor does to the construct tree, in order. The first argument of a
  \<open>New\<close> operation is the identifier of the new construct; \<open>AddEnvironment\<close> and
  \<open>AddToRolePolicy\<close> name the construct they are called on.
\<close>

datatype cdk_op =
    ConstructSuper string
  | NewRepository string string "string option"
  | NewNodejsFunction string string bool bool "(string \<times> cdk_value) list"
      "PolicyStatement list" nat
  | OnCommit string "string list" string
  | NewPipeline string string
  | AddEnvironment string string cdk_value
  | AddToRolePolicy string PolicyStatement
  | AddStage string "stage_action list"
  | NewPipelineProject string BuildSpec LinuxBuildImage ComputeType
  | NewCfnOutput string cdk_value

text \<open>The directory of the module and the file system, as far as the constructor asks.\<close>

record host =
  dirname :: string
  existsSync :: "string \<Rightarrow> bool"

text \<open>\<^verbatim>\<open>resolve(__dirname, file)\<close> for the absolute directory of the module.\<close>

definition resolve :: "string \<Rightarrow> string \<Rightarrow> string" where
  "resolve dir file = dir @ ''/'' @ file"

definition addCodeArtifactGetAuthPolicies :: "string \<Rightarrow> string \<Rightarrow> string \<Rightarrow> cdk_op list" where
  "addCodeArtifactGetAuthPolicies project domain repo =
     [AddToRolePolicy project
        (PolicyStatement [''sts:GetServiceBearerToken''] [AnyResource]
           [(''StringEquals'', ''sts:AWSServiceName'', ''codeartifact.amazonaws.com'')]),
      AddToRolePolicy project
        (PolicyStatement [''codeartifact:GetAuthorizationToken'']
           [ArnFormat (''domain/'' @ domain) ''codeartifact''] []),
      AddToRolePolicy project
        (PolicyStatement
           [''codeartifact:GetRepositoryEndpoint'', ''codeartifact:ReadFromRepository'']
           [ArnFormat (''repository/'' @ domain @ ''/'' @ repo) ''codeartifact''] [])]"

text \<open>Everything the constructor creates after the defaults are settled.\<close>

definition createResources ::
  "host \<Rightarrow> string \<Rightarrow> string option \<Rightarrow> string \<Rightarrow> string \<Rightarrow> string
     \<Rightarrow> LinuxBuildImage \<Rightarrow> ComputeType \<Rightarrow> Commands \<Rightarrow> Commands \<Rightarrow> Commands \<Rightarrow> cdk_op list"
where
  "createResources hst nm description branch domain repo img cmp lint test release =
     (let tsPath = resolve (dirname hst) ''commitFilterFn.ts'';
          entry = (if existsSync hst tsPath then tsPath
                   else resolve (dirname hst) ''commitFilterFn.js'')
      in
      [NewRepository ''Repository'' nm description,
       NewNodejsFunction ''CommitFilterFn'' entry True True
         [(''NODE_OPTIONS'', Literal ''--enable-source-maps''), (''REGION'', Token StackRegion)]
         [PolicyStatement [''codecommit:GetCommit''] [RepositoryArn] []] 1,
       OnCommit ''CommitToMain'' [''main''] ''CommitFilterFn'',
       NewPipeline ''Pipeline'' nm,
       AddEnvironment ''CommitFilterFn'' ''PIPELINE_NAME'' (Token PipelineName),
       AddToRolePolicy ''CommitFilterFn''
         (PolicyStatement [''codepipeline:StartPipelineExecution''] [PipelineArn] []),
       AddStage ''Source'' [CodeCommitSourceAction ''CodeCommit'' branch True ''NONE''],
       NewPipelineProject ''LintPipelineProject''
         (BuildSpec ''0.2'' []
            [(''install'', install lint), (''pre_build'', pre_build lint),
             (''build'', build lint)])
         img cmp]
      @ addCodeArtifactGetAuthPolicies ''LintPipelineProject'' domain repo
      @ [AddStage ''Lint'' [CodeBuildAction ''Lint'' ''LintPipelineProject'' (Some ''TEST'')],
         NewPipelineProject ''TestPipelineProject''
           (BuildSpec ''0.2'' []
              [(''install'', install test), (''pre_build'', pre_build test),
               (''build'', build test)])
           img cmp]
      @ addCodeArtifactGetAuthPolicies ''TestPipelineProject'' domain repo
      @ [AddStage ''Test'' [CodeBuildAction ''Test'' ''TestPipelineProject'' (Some ''TEST'')],
         NewPipelineProject ''PublishPipelineProject''
           (BuildSpec ''0.2'' [(''git-credential-helper'', ''yes'')]
              [(''install'', install release), (''pre_build'', pre_build release),
               (''build'', build release), (''post_build'', post_build release)])
           img cmp]
      @ addCodeArtifactGetAuthPolicies ''PublishPipelineProject'' domain repo
      @ [AddToRolePolicy ''PublishPipelineProject''
           (PolicyStatement [''codeartifact:PublishPackageVersion'']
              [ArnFormat (''package/'' @ domain @ ''/'' @ repo @ ''/npm/*'') ''codeartifact'']
              []),
         AddToRolePolicy ''PublishPipelineProject''
           (PolicyStatement
              [''codecommit:GitPull'', ''codecommit:GetReferences'', ''codecommit:GitPush'',
               ''codecommit:TagResource'']
              [RepositoryArn] []),
         AddStage ''Publish'' [CodeBuildAction ''Publish'' ''PublishPipelineProject'' None],
         NewCfnOutput ''PipelineNameOutput'' (Token PipelineName)])"

subsection \<open>The constructor\<close>

text \<open>
  \<^verbatim>\<open>globalInstallCommands\<close> and \<^verbatim>\<open>globalPreBuildCommands\<close> as the first destructuring of
  the properties binds them (lines 131 to 135), with their defaults.
\<close>

definition destructuredGlobalInstallCommands :: "PkgPipelineProps \<Rightarrow> string list" where
  "destructuredGlobalInstallCommands props =
     (case globalInstallCommands props of
        None \<Rightarrow>
          [''npm install -g npm@7'',
           ''aws codeartifact login --tool npm --domain ''
             @ templateValue (codeArtifactDomain props)
             @ '' --repository '' @ templateValue (codeArtifactRepo props)
             @ '' --namespace '' @ templateValue (codeArtifactNamespace props)]
      | Some g \<Rightarrow> g)"

definition destructuredGlobalPreBuildCommands :: "PkgPipelineProps \<Rightarrow> string list" where
  "destructuredGlobalPreBuildCommands props =
     (case globalPreBuildCommands props of None \<Rightarrow> [''npm install''] | Some g \<Rightarrow> g)"

definition throwCodeArtifact :: js_error where
  "throwCodeArtifact =
     Error ''codeArtifactDomain, codeArtifactRepo, and codeArtifactNamespace must be defined''"

text \<open>
  \<^verbatim>\<open>new PkgPipeline(scope, id, props)\<close> in the store \<open>h\<close>: the outcome, the operations on
  the construct tree up to the outcome, and the store it leaves.
\<close>

definition PkgPipeline ::
  "host \<Rightarrow> string \<Rightarrow> PkgPipelineProps \<Rightarrow> heap \<Rightarrow> (js_error + unit) \<times> cdk_op list \<times> heap"
where
  "PkgPipeline hst cid props h =
     (let buildImage' = (case buildImage props of None \<Rightarrow> STANDARD_5_0 | Some i \<Rightarrow> i);
          computeType' = (case computeType props of None \<Rightarrow> MEDIUM | Some c \<Rightarrow> c);
          globalInstallCommands' = destructuredGlobalInstallCommands props;
          globalPreBuildCommands' = destructuredGlobalPreBuildCommands props;
          releaseBranch' = (case releaseBranch props of None \<Rightarrow> ''main'' | Some b \<Rightarrow> b)
      in
      if falsy (codeArtifactDomain props) \<or> falsy (codeArtifactRepo props)
         \<or> falsy (codeArtifactNamespace props)
      then (Inl throwCodeArtifact, [ConstructSuper cid], h)
      else
        (case resolveCommands globalInstallCommands' globalPreBuildCommands' props h of
           ((lint, release, test), h') \<Rightarrow>
             (Inr (),
              ConstructSuper cid
              # createResources hst (name props) (repoDescription props) releaseBranch'
                  (templateValue (codeArtifactDomain props))
                  (templateValue (codeArtifactRepo props))
                  buildImage' computeType' (h' ! lint) (h' ! test) (h' ! release),
              h')))"

text \<open>The operations of a run that create a resource: all but the call of the base class.\<close>

fun isResource :: "cdk_op \<Rightarrow> bool" where
  "isResource (ConstructSuper _) = False"
| "isResource _ = True"

text \<open>The commands of a phase in the build specification of a project.\<close>

fun phaseCommands :: "string \<Rightarrow> string \<Rightarrow> cdk_op list \<Rightarrow> string list option" where
  "phaseCommands project phase [] = None"
| "phaseCommands project phase (NewPipelineProject p (BuildSpec v e phases) i c # ops) =
     (if p = project
      then (case map_of phases phase of None \<Rightarrow> None | Some cmds \<Rightarrow> cmds)
      else phaseCommands project phase ops)"
| "phaseCommands project phase (_ # ops) = phaseCommands project phase ops"

subsection \<open>The defaults as the documentation states them\<close>

text \<open>
  An assignment \<^verbatim>\<open>if (!c.x) c.x = d\<close> seen as a function on the object, one for each of
  the four properties.
\<close>

definition setInstall :: "string list \<Rightarrow> Commands \<Rightarrow> Commands" where
  "setInstall d c = (if install c = None then c\<lparr>install := Some d\<rparr> else c)"

definition setPreBuild :: "string list \<Rightarrow> Commands \<Rightarrow> Commands" where
  "setPreBuild d c = (if pre_build c = None then c\<lparr>pre_build := Some d\<rparr> else c)"

definition setBuild :: "string list \<Rightarrow> Commands \<Rightarrow> Commands" where
  "setBuild d c = (if build c = None then c\<lparr>build := Some d\<rparr> else c)"

definition setPostBuild :: "string list \<Rightarrow> Commands \<Rightarrow> Commands" where
  "setPostBuild d c = (if post_build c = None then c\<lparr>post_build := Some d\<rparr> else c)"

definition noCommands :: Commands where
  "noCommands = \<lparr>install = None, pre_build = None, build = None, post_build = None\<rparr>"

text \<open>The command object the caller supplied, the empty object when there was none.\<close>

definition supplied :: "heap \<Rightarrow> ref option \<Rightarrow> Commands" where
  "supplied h r = (case r of None \<Rightarrow> noCommands | Some a \<Rightarrow> h ! a)"

text \<open>The documented \<^verbatim>\<open>@default\<close> of a property: its value, or the default when unset.\<close>

definition orElse :: "'a option \<Rightarrow> 'a \<Rightarrow> 'a" where
  "orElse v d = (case v of None \<Rightarrow> d | Some x \<Rightarrow> x)"

text \<open>Two supplied command objects are different objects.\<close>

definition apart :: "ref option \<Rightarrow> ref option \<Rightarrow> bool" where
  "apart a b = (case (a, b) of (Some x, Some y) \<Rightarrow> x \<noteq> y | _ \<Rightarrow> True)"

subsection \<open>Scenarios\<close>

text \<open>The properties of the test \<^verbatim>\<open>PkgPipeline has resources\<close>.\<close>

definition testProps :: PkgPipelineProps where
  "testProps =
     \<lparr>buildImage = None, codeArtifactDomain = Some ''test-domain'',
      codeArtifactRepo = Some ''test-repo'', codeArtifactNamespace = Some ''@test-namespace'',
      computeType = None, lintCommands = None, testCommands = None, releaseCommands = None,
      globalInstallCommands = None, globalPreBuildCommands = None, name = ''test'',
      repoDescription = None, releaseBranch = None\<rparr>"

definition testHost :: host where
  "testHost = \<lparr>dirname = ''/app/lib'', existsSync = (\<lambda>p. True)\<rparr>"

section \<open>The commit filter function (lib/commitFilterFn.ts)\<close>

text \<open>
  The Lambda handler receives an EventBridge event for a CodeCommit reference, reads
  \<^verbatim>\<open>process.env.PIPELINE_NAME\<close>, fetches the commit with \<^verbatim>\<open>GetCommitCommand\<close> and, unless the
  commit message includes the marker, sends one \<^verbatim>\<open>StartPipelineExecutionCommand\<close>.

  JavaScript strings are modelled as \<^typ>\<open>string\<close>; every operation used here compares
  characters one by one, so nothing depends on the size of a character.
\<close>

subsection \<open>String.prototype.includes\<close>

text \<open>
  \<^verbatim>\<open>s.includes(search)\<close>: is there an index of \<open>s\<close> at which \<open>search\<close> starts? The search
  walks over the start positions from the left.
\<close>

fun js_includes :: "string \<Rightarrow> string \<Rightarrow> bool" where
  "js_includes [] search = (search = [])"
| "js_includes (c # cs) search = (prefix search (c # cs) \<or> js_includes cs search)"

subsection \<open>JSON.stringify on the event\<close>

definition hexDigit :: "nat \<Rightarrow> char" where
  "hexDigit n = (''0123456789abcdef'' ! (n mod 16))"

text \<open>The escapes of \<^verbatim>\<open>QuoteJSONString\<close>: the quote, the backslash and the control characters.\<close>

definition quoteChar :: "char \<Rightarrow> string" where
  "quoteChar c =
     (if c = CHR 0x22 then [CHR 0x5C, CHR 0x22]
      else if c = CHR 0x5C then [CHR 0x5C, CHR 0x5C]
      else if c = CHR 0x08 then [CHR 0x5C, CHR ''b'']
      else if c = CHR 0x09 then [CHR 0x5C, CHR ''t'']
      else if c = CHR 0x0A then [CHR 0x5C, CHR ''n'']
      else if c = CHR 0x0C then [CHR 0x5C, CHR ''f'']
      else if c = CHR 0x0D then [CHR 0x5C, CHR ''r'']
      else if (of_char c :: nat) < 32
        then [CHR 0x5C, CHR ''u'', CHR ''0'', CHR ''0'',
              hexDigit ((of_char c :: nat) div 16), hexDigit (of_char c :: nat)]
      else [c])"

definition QuoteJSONString :: "string \<Rightarrow> string" where
  "QuoteJSONString s = [CHR 0x22] @ concat (map quoteChar s) @ [CHR 0x22]"

fun joinWith :: "string \<Rightarrow> string list \<Rightarrow> string" where
  "joinWith sep [] = []"
| "joinWith sep [x] = x"
| "joinWith sep (x # y # ys) = x @ sep @ joinWith sep (y # ys)"

definition jsonProperty :: "string \<times> string \<Rightarrow> string" where
  "jsonProperty kv = QuoteJSONString (fst kv) @ '':'' @ snd kv"

definition jsonObject :: "(string \<times> string) list \<Rightarrow> string" where
  "jsonObject kvs = ''{'' @ joinWith '','' (map jsonProperty kvs) @ ''}''"

definition jsonArray :: "string list \<Rightarrow> string" where
  "jsonArray vs = ''['' @ joinWith '','' vs @ '']''"

subsection \<open>The event, the requests and the responses\<close>

text \<open>
  \<^verbatim>\<open>interface CodeCommitReferenceCreated { repositoryName: string; commitId: string;
  // other fields but they don't pertain to this fn }\<close>.
  The other properties of the detail are kept as an ordered list of names and string
  values.
\<close>

record CodeCommitReferenceCreated =
  repositoryName :: string
  commitId :: string
  otherFields :: "(string \<times> string) list"

text \<open>\<^verbatim>\<open>EventBridgeEvent<TDetailType, TDetail>\<close> as @types/aws-lambda declares it.\<close>

record EventBridgeEvent =
  version :: string
  id :: string
  detail_type :: string
  source :: string
  account :: string
  time :: string
  region :: string
  resources :: "string list"
  detail :: CodeCommitReferenceCreated

text \<open>
  \<^verbatim>\<open>JSON.stringify(event)\<close>: every property of the event and of its detail is written, in
  the order the records list them.
\<close>

definition stringifyDetail :: "CodeCommitReferenceCreated \<Rightarrow> string" where
  "stringifyDetail d =
     jsonObject
       ([(''repositoryName'', QuoteJSONString (repositoryName d)),
         (''commitId'', QuoteJSONString (commitId d))]
        @ map (\<lambda>kv. (fst kv, QuoteJSONString (snd kv))) (otherFields d))"

definition JSON_stringify :: "EventBridgeEvent \<Rightarrow> string" where
  "JSON_stringify e =
     jsonObject
       [(''version'', QuoteJSONString (version e)),
        (''id'', QuoteJSONString (id e)),
        (''detail-type'', QuoteJSONString (detail_type e)),
        (''source'', QuoteJSONString (source e)),
        (''account'', QuoteJSONString (account e)),
        (''time'', QuoteJSONString (time e)),
        (''region'', QuoteJSONString (region e)),
        (''resources'', jsonArray (map QuoteJSONString (resources e))),
        (''detail'', stringifyDetail (detail e))]"

text \<open>The input of \<^verbatim>\<open>GetCommitCommand\<close> and the part of its output the handler reads.\<close>

record GetCommitInput =
  repositoryName :: string
  commitId :: string

record Commit =
  message :: "string option"

record GetCommitOutput =
  commit :: "Commit option"

text \<open>
  The input of \<^verbatim>\<open>StartPipelineExecutionCommand\<close> in @aws-sdk/client-codepipeline 3.121:
  the pipeline's name and an optional client request token.
\<close>

record StartPipelineExecutionInput =
  name :: string
  clientRequestToken :: "string option"

record StartPipelineExecutionOutput =
  pipelineExecutionId :: "string option"

text \<open>
  What the handler does to the outside, in order: lines written with \<^verbatim>\<open>console.log\<close> and
  commands sent through the two SDK clients.
\<close>

datatype log_arg =
    LogString string
  | LogObject StartPipelineExecutionOutput

datatype action =
    ConsoleLog log_arg
  | CodeCommitSend GetCommitInput
  | CodePipelineSend StartPipelineExecutionInput

text \<open>
  The two clients are the handler's only collaborators. A call takes the state of the
  outside world \<open>'w\<close>, answers with a response or a failure, and leaves a new state.
\<close>

record 'w clients =
  ccClient :: "GetCommitInput \<Rightarrow> 'w \<Rightarrow> (js_error + GetCommitOutput) \<times> 'w"
  cpClient :: "StartPipelineExecutionInput \<Rightarrow> 'w
                 \<Rightarrow> (js_error + StartPipelineExecutionOutput) \<times> 'w"

type_synonym env = "string \<rightharpoonup> string"

subsection \<open>The handler\<close>

text \<open>\<^verbatim>\<open>commit?.message?.includes("[skip ci]")\<close>: \<^verbatim>\<open>undefined\<close> when the commit or its message is.\<close>

definition messageIncludesMarker :: "Commit option \<Rightarrow> bool option" where
  "messageIncludesMarker c =
     (case c of
        None \<Rightarrow> None
      | Some c' \<Rightarrow>
          (case message c' of
             None \<Rightarrow> None
           | Some m \<Rightarrow> Some (js_includes m ''[skip ci]'')))"

text \<open>The operator \<^verbatim>\<open>!\<close> on a boolean that may be \<^verbatim>\<open>undefined\<close>.\<close>

definition js_not :: "bool option \<Rightarrow> bool" where
  "js_not v = (case v of None \<Rightarrow> True | Some b \<Rightarrow> \<not> b)"

text \<open>
  \<^verbatim>\<open>const { repositoryName, commitId } = event.detail\<close> and the input of
  \<^verbatim>\<open>new GetCommitCommand({ repositoryName, commitId })\<close> built from the two.
\<close>

definition getCommitInput :: "EventBridgeEvent \<Rightarrow> GetCommitInput" where
  "getCommitInput event =
     \<lparr>GetCommitInput.repositoryName =
        CodeCommitReferenceCreated.repositoryName (detail event),
      GetCommitInput.commitId =
        CodeCommitReferenceCreated.commitId (detail event)\<rparr>"

definition throwPipelineName :: js_error where
  "throwPipelineName = Error ''process.env.PIPELINE_NAME is undefined''"

definition handler ::
  "'w clients \<Rightarrow> env \<Rightarrow> EventBridgeEvent \<Rightarrow> 'w \<Rightarrow> (js_error + unit) \<times> action list \<times> 'w"
where
  "handler cl penv event w =
     (let t0 = [ConsoleLog (LogString (JSON_stringify event))] in
      case penv ''PIPELINE_NAME'' of
        None \<Rightarrow> (Inl throwPipelineName, t0, w)
      | Some pipelineName \<Rightarrow>
          if pipelineName = [] then (Inl throwPipelineName, t0, w)
          else
            let get = getCommitInput event;
                t1 = t0 @ [CodeCommitSend get]
            in case ccClient cl get w of
                 (Inl e, w1) \<Rightarrow> (Inl e, t1, w1)
               | (Inr out, w1) \<Rightarrow>
                   if js_not (messageIncludesMarker (commit out)) then
                     let start = \<lparr>name = pipelineName, clientRequestToken = None\<rparr>;
                         t2 = t1 @ [ConsoleLog (LogString ''triggering pipeline''),
                                    CodePipelineSend start]
                     in case cpClient cl start w1 of
                          (Inl e, w2) \<Rightarrow> (Inl e, t2, w2)
                        | (Inr res, w2) \<Rightarrow> (Inr (), t2 @ [ConsoleLog (LogObject res)], w2)
                   else
                     (Inr (),
                      t1 @ [ConsoleLog (LogString
                              ''not triggering pipeline due to [skip ci] in commit message'')],
                      w1))"

text \<open>Projections of a run: its outcome, its actions, and the requests among them.\<close>

definition outcome :: "(js_error + unit) \<times> action list \<times> 'w \<Rightarrow> js_error + unit" where
  "outcome r = fst r"

definition actions :: "(js_error + unit) \<times> action list \<times> 'w \<Rightarrow> action list" where
  "actions r = fst (snd r)"

definition world :: "(js_error + unit) \<times> action list \<times> 'w \<Rightarrow> 'w" where
  "world r = snd (snd r)"

fun startRequests :: "action list \<Rightarrow> StartPipelineExecutionInput list" where
  "startRequests [] = []"
| "startRequests (CodePipelineSend i # as) = i # startRequests as"
| "startRequests (_ # as) = startRequests as"

fun getCommitRequests :: "action list \<Rightarrow> GetCommitInput list" where
  "getCommitRequests [] = []"
| "getCommitRequests (CodeCommitSend i # as) = i # getCommitRequests as"
| "getCommitRequests (_ # as) = getCommitRequests as"

fun isNetworkCall :: "action \<Rightarrow> bool" where
  "isNetworkCall (ConsoleLog _) = False"
| "isNetworkCall (CodeCommitSend _) = True"
| "isNetworkCall (CodePipelineSend _) = True"

text \<open>What the metadata lookup of an invocation answers in the world \<open>w\<close>.\<close>

definition fetched :: "'w clients \<Rightarrow> EventBridgeEvent \<Rightarrow> 'w \<Rightarrow> js_error + GetCommitOutput" where
  "fetched cl event w =
     fst (ccClient cl (getCommitInput event) w)"

text \<open>
  The decision as the specification words it: skip exactly when a message is present and
  contains the marker \<^verbatim>\<open>[skip ci]\<close> as a contiguous substring
  (\<^term>\<open>sublist xs ys\<close> says \<open>ys = ps @ xs @ ss\<close> for some \<open>ps\<close> and \<open>ss\<close>).
\<close>

definition fetchedMessage :: "GetCommitOutput \<Rightarrow> string option" where
  "fetchedMessage out = (case commit out of None \<Rightarrow> None | Some c \<Rightarrow> message c)"

definition spec_skip :: "string option \<Rightarrow> bool" where
  "spec_skip m = (case m of None \<Rightarrow> False | Some s \<Rightarrow> sublist ''[skip ci]'' s)"

text \<open>Two strings that differ at most in the case of their ASCII letters.\<close>

definition toLowerAscii :: "char \<Rightarrow> char" where
  "toLowerAscii c =
     (if 65 \<le> (of_char c :: nat) \<and> (of_char c :: nat) \<le> 90
      then char_of ((of_char c :: nat) + 32) else c)"

definition caseVariant :: "string \<Rightarrow> string \<Rightarrow> bool" where
  "caseVariant v s = (map toLowerAscii v = map toLowerAscii s)"

text \<open>The start request the handler builds for the pipeline \<open>p\<close>.\<close>

definition startCommand :: "string \<Rightarrow> StartPipelineExecutionInput" where
  "startCommand p = \<lparr>name = p, clientRequestToken = None\<rparr>"

subsection \<open>Scenarios\<close>

text \<open>
  A stand-in for the two services: every commit of the repository carries the message
  \<open>msg\<close>, and the execution engine keeps the names of the pipelines it was asked to start.
\<close>

definition fakeClients :: "string option \<Rightarrow> (string list) clients" where
  "fakeClients msg =
     \<lparr>ccClient = (\<lambda>i w. (Inr \<lparr>commit = Some \<lparr>message = msg\<rparr>\<rparr>, w)),
      cpClient = (\<lambda>i w. (Inr \<lparr>pipelineExecutionId = Some ''execution''\<rparr>, w @ [name i]))\<rparr>"

text \<open>A repository in which the commit is not found.\<close>

definition failingClients :: "(string list) clients" where
  "failingClients =
     \<lparr>ccClient = (\<lambda>i w. (Inl (ServiceException ''CommitDoesNotExistException''), w)),
      cpClient = (\<lambda>i w. (Inr \<lparr>pipelineExecutionId = Some ''execution''\<rparr>, w @ [name i]))\<rparr>"

definition exampleEvent :: EventBridgeEvent where
  "exampleEvent =
     \<lparr>version = ''0'', id = ''1'', detail_type = ''CodeCommit Repository State Change'',
      source = ''aws.codecommit'', account = ''123456789012'',
      time = ''2022-07-01T00:00:00Z'', region = ''us-east-1'', resources = [],
      detail = \<lparr>CodeCommitReferenceCreated.repositoryName = ''r1'',
                CodeCommitReferenceCreated.commitId = ''c1'', otherFields = []\<rparr>\<rparr>"

definition exampleEnv :: env where
  "exampleEnv = [''PIPELINE_NAME'' \<mapsto> ''test'']"

section \<open>Properties of the commit filter function\<close>

subsection \<open>The substring test\<close>

lemma js_includes_sublist: "js_includes s search \<longleftrightarrow> sublist search s"
  by (induction s) (simp_all add: sublist_Cons_right)

lemma js_not_marker:
  "js_not (messageIncludesMarker (commit out)) \<longleftrightarrow> \<not> spec_skip (fetchedMessage out)"
  by (simp add: js_not_def messageIncludesMarker_def spec_skip_def fetchedMessage_def
      js_includes_sublist split: option.splits)

subsection \<open>The four ways through the handler\<close>

lemma handler_unconfigured:
  assumes "penv ''PIPELINE_NAME'' = None \<or> penv ''PIPELINE_NAME'' = Some []"
  shows "handler cl penv event w =
           (Inl throwPipelineName, [ConsoleLog (LogString (JSON_stringify event))], w)"
  using assms by (auto simp: handler_def)

lemma handler_lookup_failed:
  assumes "penv ''PIPELINE_NAME'' = Some p" and "p \<noteq> []"
    and "ccClient cl (getCommitInput event) w = (Inl e, w1)"
  shows "handler cl penv event w =
           (Inl e,
            [ConsoleLog (LogString (JSON_stringify event)),
             CodeCommitSend (getCommitInput event)],
            w1)"
  using assms by (simp add: handler_def)

lemma handler_skipped:
  assumes "penv ''PIPELINE_NAME'' = Some p" and "p \<noteq> []"
    and "ccClient cl (getCommitInput event) w = (Inr out, w1)"
    and "spec_skip (fetchedMessage out)"
  shows "handler cl penv event w =
           (Inr (),
            [ConsoleLog (LogString (JSON_stringify event)),
             CodeCommitSend (getCommitInput event),
             ConsoleLog (LogString
               ''not triggering pipeline due to [skip ci] in commit message'')],
            w1)"
  using assms by (simp add: handler_def js_not_marker)

lemma handler_started:
  assumes "penv ''PIPELINE_NAME'' = Some p" and "p \<noteq> []"
    and "ccClient cl (getCommitInput event) w = (Inr out, w1)"
    and "\<not> spec_skip (fetchedMessage out)"
  shows "handler cl penv event w =
           (case cpClient cl (startCommand p) w1 of
              (Inl e, w2) \<Rightarrow>
                (Inl e,
                 [ConsoleLog (LogString (JSON_stringify event)),
                  CodeCommitSend (getCommitInput event),
                  ConsoleLog (LogString ''triggering pipeline''),
                  CodePipelineSend (startCommand p)], w2)
            | (Inr res, w2) \<Rightarrow>
                (Inr (),
                 [ConsoleLog (LogString (JSON_stringify event)),
                  CodeCommitSend (getCommitInput event),
                  ConsoleLog (LogString ''triggering pipeline''),
                  CodePipelineSend (startCommand p),
                  ConsoleLog (LogObject res)], w2))"
  using assms
  by (simp add: handler_def js_not_marker startCommand_def split: prod.splits sum.splits)

lemma fetched_cases:
  obtains (failed) e w1 where
      "ccClient cl (getCommitInput event) w = (Inl e, w1)"
      "fetched cl event w = Inl e"
  | (answered) out w1 where
      "ccClient cl (getCommitInput event) w = (Inr out, w1)"
      "fetched cl event w = Inr out"
proof (cases "ccClient cl (getCommitInput event) w")
  case (Pair r w1)
  then show ?thesis
    by (cases r) (auto simp: fetched_def intro: failed answered)
qed

lemma startRequests_append:
  "startRequests (xs @ ys) = startRequests xs @ startRequests ys"
  by (induction xs rule: startRequests.induct) simp_all

subsection \<open>Claims about single invocations\<close>

text \<open>
  Claim C1. Whenever the lookup answers with a commit whose message contains the literal
  substring \<^verbatim>\<open>[skip ci]\<close> anywhere in it, the handler sends no
  \<^verbatim>\<open>StartPipelineExecutionCommand\<close> and resolves successfully.
\<close>

theorem skip_ci_message_starts_nothing:
  assumes "penv ''PIPELINE_NAME'' = Some p" and "p \<noteq> []"
    and "fetched cl event w = Inr out"
    and "commit out = Some c" and "message c = Some m"
    and "sublist ''[skip ci]'' m"
  shows "startRequests (actions (handler cl penv event w)) = []
       \<and> outcome (handler cl penv event w) = Inr ()"
proof (cases rule: fetched_cases [of cl event w])
  case (failed e w1)
  with assms(3) show ?thesis by simp
next
  case (answered out' w1)
  with assms(3) have "out' = out" by simp
  moreover have "spec_skip (fetchedMessage out)"
    using assms(4-6) by (simp add: spec_skip_def fetchedMessage_def)
  ultimately show ?thesis
    using handler_skipped [of penv p cl event w out' w1] assms(1,2) answered(1)
    by (simp add: actions_def outcome_def)
qed

text \<open>The scenario of the release commit \<^verbatim>\<open>chore(release): 1.2.0 [skip ci]\<close>.\<close>

theorem skip_ci_message_starts_nothing_witness:
  "startRequests (actions (handler (fakeClients (Some ''chore(release): 1.2.0 [skip ci]''))
       exampleEnv exampleEvent [])) = []
   \<and> outcome (handler (fakeClients (Some ''chore(release): 1.2.0 [skip ci]''))
       exampleEnv exampleEvent []) = Inr ()"
proof -
  have cfg: "exampleEnv ''PIPELINE_NAME'' = Some ''test''" "''test'' \<noteq> []"
    by (simp_all add: exampleEnv_def)
  have f: "fetched (fakeClients (Some ''chore(release): 1.2.0 [skip ci]'')) exampleEvent []
             = Inr \<lparr>commit = Some \<lparr>message = Some ''chore(release): 1.2.0 [skip ci]''\<rparr>\<rparr>"
    by (simp add: fetched_def fakeClients_def)
  have s: "sublist ''[skip ci]'' ''chore(release): 1.2.0 [skip ci]''"
    by code_simp
  show ?thesis
    using skip_ci_message_starts_nothing
      [of exampleEnv "''test''" "fakeClients (Some ''chore(release): 1.2.0 [skip ci]'')"
          exampleEvent "[]" _ "\<lparr>message = Some ''chore(release): 1.2.0 [skip ci]''\<rparr>"
          "''chore(release): 1.2.0 [skip ci]''", OF cfg f _ _ s]
    by simp
qed


lemma not_skip_cases:
  assumes "fetchedMessage out = None
           \<or> (\<exists>m. fetchedMessage out = Some m \<and> \<not> sublist ''[skip ci]'' m)"
  shows "\<not> spec_skip (fetchedMessage out)"
  using assms by (auto simp: spec_skip_def)

lemma started_requests:
  assumes "penv ''PIPELINE_NAME'' = Some p" and "p \<noteq> []"
    and "fetched cl event w = Inr out"
    and "\<not> spec_skip (fetchedMessage out)"
  shows "startRequests (actions (handler cl penv event w)) = [startCommand p]"
proof (cases rule: fetched_cases [of cl event w])
  case (failed e w1)
  with assms(3) show ?thesis by simp
next
  case (answered out' w1)
  with assms(3) have "out' = out" by simp
  with assms(4) have "\<not> spec_skip (fetchedMessage out')" by simp
  then show ?thesis
    using handler_started [of penv p cl event w out' w1] assms(1,2) answered(1)
    by (simp add: actions_def split: prod.splits sum.splits)
qed

text \<open>
  Claim C2. Whenever the fetched commit message does not contain \<^verbatim>\<open>[skip ci]\<close>, be it
  absent, empty or any other text, the handler sends exactly one
  \<^verbatim>\<open>StartPipelineExecutionCommand\<close>; its name is the configured pipeline name and nothing
  else is set in it.
\<close>

theorem unmarked_message_starts_pipeline_once:
  assumes "penv ''PIPELINE_NAME'' = Some p" and "p \<noteq> []"
    and "fetched cl event w = Inr out"
    and "fetchedMessage out = None
         \<or> (\<exists>m. fetchedMessage out = Some m \<and> \<not> sublist ''[skip ci]'' m)"
  shows "startRequests (actions (handler cl penv event w))
           = [\<lparr>name = p, clientRequestToken = None\<rparr>]"
  using started_requests [of penv p cl event w out] assms(1-3) not_skip_cases [OF assms(4)]
  by (simp add: startCommand_def)

text \<open>An absent message, the empty message and \<^verbatim>\<open>feat: add x\<close>.\<close>

theorem unmarked_message_starts_pipeline_once_witness:
  "startRequests (actions (handler (fakeClients None) exampleEnv exampleEvent []))
     = [\<lparr>name = ''test'', clientRequestToken = None\<rparr>]
   \<and> startRequests (actions (handler (fakeClients (Some [])) exampleEnv exampleEvent []))
     = [\<lparr>name = ''test'', clientRequestToken = None\<rparr>]
   \<and> startRequests (actions (handler (fakeClients (Some ''feat: add x'')) exampleEnv
        exampleEvent []))
     = [\<lparr>name = ''test'', clientRequestToken = None\<rparr>]"
proof -
  have cfg: "exampleEnv ''PIPELINE_NAME'' = Some ''test''" "''test'' \<noteq> []"
    by (simp_all add: exampleEnv_def)
  have f: "fetched (fakeClients msg) exampleEvent []
             = Inr \<lparr>commit = Some \<lparr>message = msg\<rparr>\<rparr>" for msg
    by (simp add: fetched_def fakeClients_def)
  have m: "fetchedMessage \<lparr>commit = Some \<lparr>message = msg\<rparr>\<rparr> = msg" for msg
    by (simp add: fetchedMessage_def)
  have n: "\<not> sublist ''[skip ci]'' []" "\<not> sublist ''[skip ci]'' ''feat: add x''"
    by code_simp+
  show ?thesis
    using unmarked_message_starts_pipeline_once
            [of exampleEnv "''test''" "fakeClients None" exampleEvent "[]", OF cfg f]
          unmarked_message_starts_pipeline_once
            [of exampleEnv "''test''" "fakeClients (Some [])" exampleEvent "[]", OF cfg f]
          unmarked_message_starts_pipeline_once
            [of exampleEnv "''test''" "fakeClients (Some ''feat: add x'')" exampleEvent "[]",
             OF cfg f]
    by (simp add: m n)
qed

text \<open>
  Claim C3. With \<^verbatim>\<open>PIPELINE_NAME\<close> unset or empty the handler fails with the configuration
  error before any network call: no command is sent through either client and the
  outside world is left as it was.
\<close>

theorem missing_pipeline_name_fails_before_network:
  assumes "penv ''PIPELINE_NAME'' = None \<or> penv ''PIPELINE_NAME'' = Some []"
  shows "outcome (handler cl penv event w)
           = Inl (Error ''process.env.PIPELINE_NAME is undefined'')
       \<and> filter isNetworkCall (actions (handler cl penv event w)) = []
       \<and> world (handler cl penv event w) = w"
  using handler_unconfigured [of penv cl event w] assms
  by (simp add: outcome_def actions_def world_def throwPipelineName_def)

text \<open>An environment without the variable, and one where it is the empty string.\<close>

theorem missing_pipeline_name_fails_before_network_witness:
  "(outcome (handler (fakeClients (Some ''feat: add x'')) Map.empty exampleEvent [])
      = Inl (Error ''process.env.PIPELINE_NAME is undefined'')
    \<and> filter isNetworkCall
        (actions (handler (fakeClients (Some ''feat: add x'')) Map.empty exampleEvent [])) = []
    \<and> world (handler (fakeClients (Some ''feat: add x'')) Map.empty exampleEvent []) = [])
   \<and> (outcome (handler (fakeClients (Some ''feat: add x'')) [''PIPELINE_NAME'' \<mapsto> []]
        exampleEvent [])
      = Inl (Error ''process.env.PIPELINE_NAME is undefined'')
    \<and> filter isNetworkCall
        (actions (handler (fakeClients (Some ''feat: add x'')) [''PIPELINE_NAME'' \<mapsto> []]
          exampleEvent [])) = []
    \<and> world (handler (fakeClients (Some ''feat: add x'')) [''PIPELINE_NAME'' \<mapsto> []]
        exampleEvent []) = [])"
proof -
  have a: "Map.empty ''PIPELINE_NAME'' = None \<or> Map.empty ''PIPELINE_NAME'' = Some []"
    by simp
  have b: "[''PIPELINE_NAME'' \<mapsto> []] ''PIPELINE_NAME'' = None
           \<or> [''PIPELINE_NAME'' \<mapsto> []] ''PIPELINE_NAME'' = Some []"
    by simp
  show ?thesis
    using missing_pipeline_name_fails_before_network
            [of Map.empty "fakeClients (Some ''feat: add x'')" exampleEvent "[]", OF a]
          missing_pipeline_name_fails_before_network
            [of "[''PIPELINE_NAME'' \<mapsto> []]" "fakeClients (Some ''feat: add x'')"
                exampleEvent "[]", OF b]
    by simp
qed

text \<open>
  Claim C4. When \<^verbatim>\<open>GetCommitCommand\<close> fails, the handler sends no
  \<^verbatim>\<open>StartPipelineExecutionCommand\<close>, rejects with that very failure, and has sent the
  lookup once only.
\<close>

theorem lookup_failure_propagates:
  assumes "penv ''PIPELINE_NAME'' = Some p" and "p \<noteq> []"
    and "fetched cl event w = Inl e"
  shows "startRequests (actions (handler cl penv event w)) = []
       \<and> outcome (handler cl penv event w) = Inl e
       \<and> getCommitRequests (actions (handler cl penv event w)) = [getCommitInput event]"
proof (cases rule: fetched_cases [of cl event w])
  case (failed e' w1)
  with assms(3) have "e' = e" by simp
  then show ?thesis
    using handler_lookup_failed [of penv p cl event w e' w1] assms(1,2) failed(1)
    by (simp add: actions_def outcome_def)
next
  case (answered out w1)
  with assms(3) show ?thesis by simp
qed

text \<open>A repository that answers \<^verbatim>\<open>CommitDoesNotExistException\<close>.\<close>

theorem lookup_failure_propagates_witness:
  "startRequests (actions (handler failingClients exampleEnv exampleEvent [])) = []
   \<and> outcome (handler failingClients exampleEnv exampleEvent [])
       = Inl (ServiceException ''CommitDoesNotExistException'')
   \<and> getCommitRequests (actions (handler failingClients exampleEnv exampleEvent []))
       = [getCommitInput exampleEvent]"
proof -
  have cfg: "exampleEnv ''PIPELINE_NAME'' = Some ''test''" "''test'' \<noteq> []"
    by (simp_all add: exampleEnv_def)
  have f: "fetched failingClients exampleEvent []
             = Inl (ServiceException ''CommitDoesNotExistException'')"
    by (simp add: fetched_def failingClients_def)
  show ?thesis
    using lookup_failure_propagates
            [of exampleEnv "''test''" failingClients exampleEvent "[]", OF cfg f]
    by simp
qed

subsection \<open>Every run takes one of five paths\<close>

lemma handler_paths:
  obtains (unconfigured)
      "handler cl penv event w =
         (Inl throwPipelineName, [ConsoleLog (LogString (JSON_stringify event))], w)"
  | (lookup_failed) e w1 where
      "handler cl penv event w =
         (Inl e, [ConsoleLog (LogString (JSON_stringify event)),
                  CodeCommitSend (getCommitInput event)], w1)"
  | (skipped) w1 where
      "handler cl penv event w =
         (Inr (), [ConsoleLog (LogString (JSON_stringify event)),
                   CodeCommitSend (getCommitInput event),
                   ConsoleLog (LogString
                     ''not triggering pipeline due to [skip ci] in commit message'')], w1)"
  | (start_failed) p e w2 where
      "handler cl penv event w =
         (Inl e, [ConsoleLog (LogString (JSON_stringify event)),
                  CodeCommitSend (getCommitInput event),
                  ConsoleLog (LogString ''triggering pipeline''),
                  CodePipelineSend (startCommand p)], w2)"
  | (started) p res w2 where
      "handler cl penv event w =
         (Inr (), [ConsoleLog (LogString (JSON_stringify event)),
                   CodeCommitSend (getCommitInput event),
                   ConsoleLog (LogString ''triggering pipeline''),
                   CodePipelineSend (startCommand p),
                   ConsoleLog (LogObject res)], w2)"
proof (cases "penv ''PIPELINE_NAME'' = None \<or> penv ''PIPELINE_NAME'' = Some []")
  case True
  then show ?thesis
    using handler_unconfigured [of penv cl event w] unconfigured by simp
next
  case False
  then obtain p where p: "penv ''PIPELINE_NAME'' = Some p" "p \<noteq> []"
    by auto
  show ?thesis
  proof (cases rule: fetched_cases [of cl event w])
    case (failed e w1)
    then show ?thesis
      using handler_lookup_failed [of penv p cl event w e w1] p lookup_failed by simp
  next
    case (answered out w1)
    show ?thesis
    proof (cases "spec_skip (fetchedMessage out)")
      case True
      then show ?thesis
        using handler_skipped [of penv p cl event w out w1] p answered(1) skipped by simp
    next
      case False
      obtain r w2 where r: "cpClient cl (startCommand p) w1 = (r, w2)"
        by (cases "cpClient cl (startCommand p) w1")
      show ?thesis
      proof (cases r)
        case (Inl e)
        then show ?thesis
          using handler_started [of penv p cl event w out w1] p answered(1) False r
            start_failed by simp
      next
        case (Inr res)
        then show ?thesis
          using handler_started [of penv p cl event w out w1] p answered(1) False r
            started by simp
      qed
    qed
  qed
qed

text \<open>
  Claim C6. Whatever the clients answer, whatever the environment and the event, one
  invocation of the handler sends at most one \<^verbatim>\<open>StartPipelineExecutionCommand\<close>.
\<close>

theorem at_most_one_start_request:
  "length (startRequests (actions (handler cl penv event w))) \<le> 1"
  by (cases rule: handler_paths [of cl penv event w]) (simp_all add: actions_def)

text \<open>
  Claim C5. The marker test is a case-sensitive, unanchored substring match. A message
  that contains \<^verbatim>\<open>[SKIP CI]\<close> or another case variant of the marker, but not the
  lower-case marker itself, is not skipped and one start request is sent; a message with
  \<^verbatim>\<open>[skip ci]\<close> embedded anywhere in other text is skipped.
\<close>

theorem marker_match_case_sensitive_unanchored:
  assumes "penv ''PIPELINE_NAME'' = Some p" and "p \<noteq> []"
    and "fetched cl event w = Inr out"
    and "commit out = Some c" and "message c = Some m"
  shows "(caseVariant v ''[skip ci]'' \<and> sublist v m \<and> \<not> sublist ''[skip ci]'' m \<longrightarrow>
            js_not (messageIncludesMarker (commit out))
            \<and> startRequests (actions (handler cl penv event w))
                = [\<lparr>name = p, clientRequestToken = None\<rparr>])
       \<and> ((\<exists>a b. m = a @ ''[skip ci]'' @ b) \<longrightarrow>
            \<not> js_not (messageIncludesMarker (commit out))
            \<and> startRequests (actions (handler cl penv event w)) = [])"
proof -
  have fm: "fetchedMessage out = Some m"
    using assms(4,5) by (simp add: fetchedMessage_def)
  obtain w1 where cc: "ccClient cl (getCommitInput event) w = (Inr out, w1)"
    using assms(3) by (cases rule: fetched_cases [of cl event w]) simp_all
  have a: "js_not (messageIncludesMarker (commit out))
           \<and> startRequests (actions (handler cl penv event w))
               = [\<lparr>name = p, clientRequestToken = None\<rparr>]"
    if "\<not> sublist ''[skip ci]'' m"
  proof -
    from that fm have ns: "\<not> spec_skip (fetchedMessage out)"
      by (simp add: spec_skip_def)
    then show ?thesis
      using handler_started [of penv p cl event w out w1] assms(1,2) cc
      by (simp add: js_not_marker actions_def startCommand_def split: prod.splits sum.splits)
  qed
  have b: "\<not> js_not (messageIncludesMarker (commit out))
           \<and> startRequests (actions (handler cl penv event w)) = []"
    if "\<exists>a b. m = a @ ''[skip ci]'' @ b"
  proof -
    from that fm have s: "spec_skip (fetchedMessage out)"
      by (simp add: spec_skip_def sublist_def)
    then show ?thesis
      using handler_skipped [of penv p cl event w out w1] assms(1,2) cc
      by (simp add: js_not_marker actions_def)
  qed
  from a b show ?thesis by blast
qed

text \<open>The messages \<^verbatim>\<open>docs: y [SKIP CI]\<close> and \<^verbatim>\<open>pre[skip ci]post\<close>.\<close>

theorem marker_match_case_sensitive_unanchored_witness:
  "(js_not (messageIncludesMarker (Some \<lparr>message = Some ''docs: y [SKIP CI]''\<rparr>))
    \<and> startRequests (actions (handler (fakeClients (Some ''docs: y [SKIP CI]'')) exampleEnv
         exampleEvent []))
       = [\<lparr>name = ''test'', clientRequestToken = None\<rparr>])
   \<and> (\<not> js_not (messageIncludesMarker (Some \<lparr>message = Some ''pre[skip ci]post''\<rparr>))
    \<and> startRequests (actions (handler (fakeClients (Some ''pre[skip ci]post'')) exampleEnv
         exampleEvent [])) = [])"
proof -
  have cfg: "exampleEnv ''PIPELINE_NAME'' = Some ''test''" "''test'' \<noteq> []"
    by (simp_all add: exampleEnv_def)
  have f: "fetched (fakeClients msg) exampleEvent []
             = Inr \<lparr>commit = Some \<lparr>message = msg\<rparr>\<rparr>" for msg
    by (simp add: fetched_def fakeClients_def)
  have c: "commit \<lparr>commit = Some \<lparr>message = msg\<rparr>\<rparr> = Some \<lparr>message = msg\<rparr>" for msg
    by simp
  have m: "message \<lparr>message = Some s\<rparr> = Some s" for s :: string
    by simp
  have v: "caseVariant ''[SKIP CI]'' ''[skip ci]''"
    by code_simp
  have s1: "sublist ''[SKIP CI]'' ''docs: y [SKIP CI]''"
    and s2: "\<not> sublist ''[skip ci]'' ''docs: y [SKIP CI]''"
    by code_simp+
  have s3: "\<exists>a b. ''pre[skip ci]post'' = a @ ''[skip ci]'' @ b"
    by (rule exI [of _ "''pre''"], rule exI [of _ "''post''"]) simp
  show ?thesis
    using marker_match_case_sensitive_unanchored
            [of exampleEnv "''test''" "fakeClients (Some ''docs: y [SKIP CI]'')" exampleEvent
                "[]" _ _ "''docs: y [SKIP CI]''" "''[SKIP CI]''", OF cfg f c m]
          marker_match_case_sensitive_unanchored
            [of exampleEnv "''test''" "fakeClients (Some ''pre[skip ci]post'')" exampleEvent
                "[]" _ _ "''pre[skip ci]post''" "''[SKIP CI]''", OF cfg f c m]
          v s1 s2 s3
    by simp
qed



text \<open>The bound at the run of the scenario \<^verbatim>\<open>feat: add x\<close>.\<close>

theorem at_most_one_start_request_witness:
  "length (startRequests (actions (handler (fakeClients (Some ''feat: add x'')) exampleEnv
     exampleEvent []))) \<le> 1"
  using at_most_one_start_request
          [of "fakeClients (Some ''feat: add x'')" exampleEnv exampleEvent "[]"]
  by simp

subsection \<open>Which parts of the event the handler uses\<close>

text \<open>
  The first action of every run is the \<^verbatim>\<open>console.log\<close> of the whole serialised event;
  everything after it is determined by the input of \<^verbatim>\<open>GetCommitCommand\<close>.
\<close>

lemma handler_first_action:
  "actions (handler cl penv event w)
     = ConsoleLog (LogString (JSON_stringify event)) # tl (actions (handler cl penv event w))"
  by (cases rule: handler_paths [of cl penv event w]) (simp_all add: actions_def)

lemma handler_after_first_action:
  assumes "getCommitInput e1 = getCommitInput e2"
  shows "outcome (handler cl penv e1 w) = outcome (handler cl penv e2 w)"
    and "world (handler cl penv e1 w) = world (handler cl penv e2 w)"
    and "tl (actions (handler cl penv e1 w)) = tl (actions (handler cl penv e2 w))"
  by (simp_all add: handler_def Let_def assms outcome_def actions_def world_def
      split: option.splits prod.splits sum.splits)

text \<open>
  Claim C7 as stated (two events that agree on \<^verbatim>\<open>detail.repositoryName\<close> and
  \<^verbatim>\<open>detail.commitId\<close> lead to identical actions) fails: two events that differ in their
  \<^verbatim>\<open>id\<close> only are logged differently by line 65 of the handler.
\<close>

theorem extra_event_fields_reach_log_counterexample:
  "CodeCommitReferenceCreated.repositoryName (detail (exampleEvent\<lparr>id := ''2''\<rparr>))
     = CodeCommitReferenceCreated.repositoryName (detail exampleEvent)
   \<and> CodeCommitReferenceCreated.commitId (detail (exampleEvent\<lparr>id := ''2''\<rparr>))
     = CodeCommitReferenceCreated.commitId (detail exampleEvent)
   \<and> actions (handler (fakeClients (Some ''feat: add x'')) exampleEnv
        (exampleEvent\<lparr>id := ''2''\<rparr>) [])
     \<noteq> actions (handler (fakeClients (Some ''feat: add x'')) exampleEnv exampleEvent [])"
proof -
  have "JSON_stringify (exampleEvent\<lparr>id := ''2''\<rparr>) \<noteq> JSON_stringify exampleEvent"
    by code_simp
  then have "actions (handler (fakeClients (Some ''feat: add x'')) exampleEnv
               (exampleEvent\<lparr>id := ''2''\<rparr>) [])
             \<noteq> actions (handler (fakeClients (Some ''feat: add x'')) exampleEnv
                 exampleEvent [])"
    using handler_first_action
            [of "fakeClients (Some ''feat: add x'')" exampleEnv "exampleEvent\<lparr>id := ''2''\<rparr>" "[]"]
          handler_first_action
            [of "fakeClients (Some ''feat: add x'')" exampleEnv exampleEvent "[]"]
    by (metis action.inject(1) list.inject log_arg.inject(1))
  then show ?thesis by simp
qed

text \<open>
  Claim C7, amended. For two events that agree on \<^verbatim>\<open>detail.repositoryName\<close> and
  \<^verbatim>\<open>detail.commitId\<close>, under the same clients, world and environment, the handler has
  the same outcome, leaves the same world, sends the same commands and writes the same
  log lines after the first; the first log line is the serialised event itself.
\<close>

theorem handler_reads_two_detail_fields:
  assumes "CodeCommitReferenceCreated.repositoryName (detail e1)
             = CodeCommitReferenceCreated.repositoryName (detail e2)"
    and "CodeCommitReferenceCreated.commitId (detail e1)
             = CodeCommitReferenceCreated.commitId (detail e2)"
  shows "outcome (handler cl penv e1 w) = outcome (handler cl penv e2 w)
       \<and> world (handler cl penv e1 w) = world (handler cl penv e2 w)
       \<and> filter isNetworkCall (actions (handler cl penv e1 w))
           = filter isNetworkCall (actions (handler cl penv e2 w))
       \<and> hd (actions (handler cl penv e1 w)) = ConsoleLog (LogString (JSON_stringify e1))
       \<and> hd (actions (handler cl penv e2 w)) = ConsoleLog (LogString (JSON_stringify e2))
       \<and> tl (actions (handler cl penv e1 w)) = tl (actions (handler cl penv e2 w))"
proof -
  from assms have g: "getCommitInput e1 = getCommitInput e2"
    by (simp add: getCommitInput_def)
  have f: "filter isNetworkCall (actions (handler cl penv e w))
             = filter isNetworkCall (tl (actions (handler cl penv e w)))" for e
    by (subst handler_first_action) simp
  have h: "hd (actions (handler cl penv e w)) = ConsoleLog (LogString (JSON_stringify e))"
    for e
    by (subst handler_first_action) simp
  show ?thesis
    using handler_after_first_action [OF g, of cl penv w] f h by simp
qed

text \<open>The two events of the counterexample.\<close>

theorem handler_reads_two_detail_fields_witness:
  "outcome (handler (fakeClients (Some ''feat: add x'')) exampleEnv
       (exampleEvent\<lparr>id := ''2''\<rparr>) [])
     = outcome (handler (fakeClients (Some ''feat: add x'')) exampleEnv exampleEvent [])
   \<and> filter isNetworkCall (actions (handler (fakeClients (Some ''feat: add x'')) exampleEnv
       (exampleEvent\<lparr>id := ''2''\<rparr>) []))
     = filter isNetworkCall
         (actions (handler (fakeClients (Some ''feat: add x'')) exampleEnv exampleEvent []))
   \<and> tl (actions (handler (fakeClients (Some ''feat: add x'')) exampleEnv
       (exampleEvent\<lparr>id := ''2''\<rparr>) []))
     = tl (actions (handler (fakeClients (Some ''feat: add x'')) exampleEnv exampleEvent []))"
proof -
  have a: "CodeCommitReferenceCreated.repositoryName (detail (exampleEvent\<lparr>id := ''2''\<rparr>))
             = CodeCommitReferenceCreated.repositoryName (detail exampleEvent)"
    and b: "CodeCommitReferenceCreated.commitId (detail (exampleEvent\<lparr>id := ''2''\<rparr>))
             = CodeCommitReferenceCreated.commitId (detail exampleEvent)"
    by simp_all
  show ?thesis
    using handler_reads_two_detail_fields
            [OF a b, of "fakeClients (Some ''feat: add x'')" exampleEnv "[]"]
    by simp
qed

subsection \<open>Two invocations\<close>

text \<open>
  Claim C8. The handler keeps nothing between invocations: a run is a function of the
  clients, the environment, the event and the outside world. Invoked twice with the same
  event, the second time in the world the first run left, with both lookups answering a
  message without the marker, it sends one start request per invocation, two in total.
\<close>

theorem replayed_event_starts_pipeline_again:
  assumes "penv ''PIPELINE_NAME'' = Some p" and "p \<noteq> []"
    and "fetched cl event w = Inr out1"
    and "\<not> spec_skip (fetchedMessage out1)"
    and "fetched cl event (world (handler cl penv event w)) = Inr out2"
    and "\<not> spec_skip (fetchedMessage out2)"
  shows "startRequests (actions (handler cl penv event w))
           = [\<lparr>name = p, clientRequestToken = None\<rparr>]
       \<and> startRequests (actions (handler cl penv event (world (handler cl penv event w))))
           = [\<lparr>name = p, clientRequestToken = None\<rparr>]
       \<and> startRequests (actions (handler cl penv event w)
                         @ actions (handler cl penv event (world (handler cl penv event w))))
           = [\<lparr>name = p, clientRequestToken = None\<rparr>,
              \<lparr>name = p, clientRequestToken = None\<rparr>]"
  using started_requests [of penv p cl event w out1]
        started_requests [of penv p cl event "world (handler cl penv event w)" out2]
        assms
  by (simp add: startRequests_append startCommand_def)

text \<open>The scenario of the replayed event \<^verbatim>\<open>{repo: r1, commit: c1}\<close> with \<^verbatim>\<open>feat: add x\<close>.\<close>

theorem replayed_event_starts_pipeline_again_witness:
  "startRequests (actions (handler (fakeClients (Some ''feat: add x'')) exampleEnv
       exampleEvent [])
     @ actions (handler (fakeClients (Some ''feat: add x'')) exampleEnv exampleEvent
         (world (handler (fakeClients (Some ''feat: add x'')) exampleEnv exampleEvent []))))
     = [\<lparr>name = ''test'', clientRequestToken = None\<rparr>,
        \<lparr>name = ''test'', clientRequestToken = None\<rparr>]"
proof -
  have cfg: "exampleEnv ''PIPELINE_NAME'' = Some ''test''" "''test'' \<noteq> []"
    by (simp_all add: exampleEnv_def)
  have f: "fetched (fakeClients (Some ''feat: add x'')) exampleEvent w0
             = Inr \<lparr>commit = Some \<lparr>message = Some ''feat: add x''\<rparr>\<rparr>" for w0
    by (simp add: fetched_def fakeClients_def)
  have "\<not> sublist ''[skip ci]'' ''feat: add x''"
    by code_simp
  then have n: "\<not> spec_skip (fetchedMessage \<lparr>commit = Some \<lparr>message = Some ''feat: add x''\<rparr>\<rparr>)"
    by (simp add: spec_skip_def fetchedMessage_def)
  show ?thesis
    using replayed_event_starts_pipeline_again
            [of exampleEnv "''test''" "fakeClients (Some ''feat: add x'')" exampleEvent "[]",
             OF cfg f n f n]
    by simp
qed

section \<open>Properties of the pipeline construct\<close>

subsection \<open>Assignments to the store as updates of one object\<close>

lemma set_fields [simp]:
  "install (setInstall d c) = Some (orElse (install c) d)"
  "pre_build (setInstall d c) = pre_build c"
  "build (setInstall d c) = build c"
  "post_build (setInstall d c) = post_build c"
  "install (setPreBuild d c) = install c"
  "pre_build (setPreBuild d c) = Some (orElse (pre_build c) d)"
  "build (setPreBuild d c) = build c"
  "post_build (setPreBuild d c) = post_build c"
  "install (setBuild d c) = install c"
  "pre_build (setBuild d c) = pre_build c"
  "build (setBuild d c) = Some (orElse (build c) d)"
  "post_build (setBuild d c) = post_build c"
  "install (setPostBuild d c) = install c"
  "pre_build (setPostBuild d c) = pre_build c"
  "build (setPostBuild d c) = build c"
  "post_build (setPostBuild d c) = Some (orElse (post_build c) d)"
  by (auto simp: setInstall_def setPreBuild_def setBuild_def setPostBuild_def orElse_def)

lemma orElse_simps [simp]: "orElse None d = d" "orElse (Some x) d = x"
  by (simp_all add: orElse_def)

lemma fillGlobal_update:
  "fillGlobal gi gp h r = h[r := setPreBuild gp (setInstall gi (h ! r))]"
proof (cases "r < length h")
  case True
  then show ?thesis
    by (auto simp: fillGlobal_def Let_def setInstall_def setPreBuild_def list_update_id)
next
  case False
  then have "h[r := x] = h" for x
    by (simp add: list_update_beyond)
  then show ?thesis
    by (simp add: fillGlobal_def Let_def)
qed

lemma assign_build_update:
  "(if build (h ! r) = None then h[r := (h ! r)\<lparr>build := Some d\<rparr>] else h)
     = h[r := setBuild d (h ! r)]"
  by (simp add: setBuild_def list_update_id)

lemma assign_post_build_update:
  "(if post_build (h ! r) = None then h[r := (h ! r)\<lparr>post_build := Some d\<rparr>] else h)
     = h[r := setPostBuild d (h ! r)]"
  by (simp add: setPostBuild_def list_update_id)

lemma assignDefaults_updates:
  "assignDefaults gi gp lint release test h3 =
     (let h4 = h3[lint := setPreBuild gp (setInstall gi (h3 ! lint))];
          h5 = h4[release := setPreBuild gp (setInstall gi (h4 ! release))];
          h6 = h5[test := setPreBuild gp (setInstall gi (h5 ! test))];
          h7 = h6[lint := setBuild defaultLintCommands (h6 ! lint)];
          h8 = h7[release := setBuild defaultBuildCommands (h7 ! release)];
          h9 = h8[release := setPostBuild defaultReleaseCommands (h8 ! release)];
          h10 = h9[test := setBuild defaultTestCommands (h9 ! test)]
      in h10)"
  unfolding assignDefaults_def
  by (simp only: foldl.simps fillGlobal_update assign_build_update assign_post_build_update
      Let_def)

lemma assignDefaults_distinct:
  assumes "l < length h" and "r < length h" and "t < length h"
    and "l \<noteq> r" and "l \<noteq> t" and "r \<noteq> t"
  shows "assignDefaults gi gp l r t h ! l
           = setBuild defaultLintCommands (setPreBuild gp (setInstall gi (h ! l)))"
    and "assignDefaults gi gp l r t h ! r
           = setPostBuild defaultReleaseCommands
               (setBuild defaultBuildCommands (setPreBuild gp (setInstall gi (h ! r))))"
    and "assignDefaults gi gp l r t h ! t
           = setBuild defaultTestCommands (setPreBuild gp (setInstall gi (h ! t)))"
  using assms by (simp_all add: assignDefaults_updates Let_def)

lemma assignDefaults_defined:
  assumes "l < length h" and "r < length h" and "t < length h"
  shows "install (assignDefaults gi gp l r t h ! l) \<noteq> None"
    and "pre_build (assignDefaults gi gp l r t h ! l) \<noteq> None"
    and "build (assignDefaults gi gp l r t h ! l) \<noteq> None"
    and "install (assignDefaults gi gp l r t h ! r) \<noteq> None"
    and "pre_build (assignDefaults gi gp l r t h ! r) \<noteq> None"
    and "build (assignDefaults gi gp l r t h ! r) \<noteq> None"
    and "post_build (assignDefaults gi gp l r t h ! r) \<noteq> None"
    and "install (assignDefaults gi gp l r t h ! t) \<noteq> None"
    and "pre_build (assignDefaults gi gp l r t h ! t) \<noteq> None"
    and "build (assignDefaults gi gp l r t h ! t) \<noteq> None"
  using assms by (simp_all add: assignDefaults_updates Let_def nth_list_update)


subsection \<open>The references and objects after the destructuring\<close>

lemma destructureCommands_refs:
  assumes "wf_props h props" and "destructureCommands gi gp props h = ((l, r, t), h3)"
  shows "l < length h3" and "r < length h3" and "t < length h3"
    and "apart (lintCommands props) (releaseCommands props) \<Longrightarrow> l \<noteq> r"
    and "apart (lintCommands props) (testCommands props) \<Longrightarrow> l \<noteq> t"
    and "apart (releaseCommands props) (testCommands props) \<Longrightarrow> r \<noteq> t"
  using assms
  by (cases "lintCommands props"; cases "releaseCommands props"; cases "testCommands props";
      auto simp: destructureCommands_def orDefault_def alloc_def wf_props_def apart_def)+

lemma destructureCommands_objects:
  assumes "wf_props h props" and "destructureCommands gi gp props h = ((l, r, t), h3)"
  shows "h3 ! l = (case lintCommands props of
                     None \<Rightarrow> \<lparr>install = Some gi, pre_build = Some gp,
                              build = Some defaultLintCommands, post_build = None\<rparr>
                   | Some a \<Rightarrow> h ! a)"
    and "h3 ! r = (case releaseCommands props of
                     None \<Rightarrow> \<lparr>install = Some gi, pre_build = Some gp,
                              build = Some defaultBuildCommands,
                              post_build = Some defaultReleaseCommands\<rparr>
                   | Some a \<Rightarrow> h ! a)"
    and "h3 ! t = (case testCommands props of
                     None \<Rightarrow> \<lparr>install = Some gi, pre_build = Some gp,
                              build = Some defaultTestCommands, post_build = None\<rparr>
                   | Some a \<Rightarrow> h ! a)"
  using assms
  by (cases "lintCommands props"; cases "releaseCommands props"; cases "testCommands props";
      auto simp: destructureCommands_def orDefault_def alloc_def wf_props_def nth_append)+

lemma default_objects:
  "setBuild b (setPreBuild gp (setInstall gi
     \<lparr>install = Some gi, pre_build = Some gp, build = Some b, post_build = None\<rparr>))
   = setBuild b (setPreBuild gp (setInstall gi noCommands))"
  "setPostBuild p (setBuild b (setPreBuild gp (setInstall gi
     \<lparr>install = Some gi, pre_build = Some gp, build = Some b, post_build = Some p\<rparr>)))
   = setPostBuild p (setBuild b (setPreBuild gp (setInstall gi noCommands)))"
  by (simp_all add: setInstall_def setPreBuild_def setBuild_def setPostBuild_def noCommands_def)

lemma resolveCommands_distinct:
  assumes "wf_props h props"
    and "apart (lintCommands props) (releaseCommands props)"
    and "apart (lintCommands props) (testCommands props)"
    and "apart (releaseCommands props) (testCommands props)"
    and "resolveCommands gi gp props h = ((l, r, t), h')"
  shows "h' ! l = setBuild defaultLintCommands
                    (setPreBuild gp (setInstall gi (supplied h (lintCommands props))))"
    and "h' ! r = setPostBuild defaultReleaseCommands
                    (setBuild defaultBuildCommands
                      (setPreBuild gp (setInstall gi (supplied h (releaseCommands props)))))"
    and "h' ! t = setBuild defaultTestCommands
                    (setPreBuild gp (setInstall gi (supplied h (testCommands props))))"
proof -
  obtain h3 where d: "destructureCommands gi gp props h = ((l, r, t), h3)"
    and h': "h' = assignDefaults gi gp l r t h3"
    using assms(5) by (auto simp: resolveCommands_def split: prod.splits)
  note refs = destructureCommands_refs [OF assms(1) d]
  note objs = destructureCommands_objects [OF assms(1) d]
  have lr: "l \<noteq> r" and lt: "l \<noteq> t" and rt: "r \<noteq> t"
    using refs(4-6) assms(2-4) by simp_all
  note upd = assignDefaults_distinct [OF refs(1-3) lr lt rt, of gi gp]
  show "h' ! l = setBuild defaultLintCommands
                    (setPreBuild gp (setInstall gi (supplied h (lintCommands props))))"
    unfolding h' upd(1) objs(1)
    by (cases "lintCommands props") (simp_all add: default_objects supplied_def)
  show "h' ! r = setPostBuild defaultReleaseCommands
                    (setBuild defaultBuildCommands
                      (setPreBuild gp (setInstall gi (supplied h (releaseCommands props)))))"
    unfolding h' upd(2) objs(2)
    by (cases "releaseCommands props") (simp_all add: default_objects supplied_def)
  show "h' ! t = setBuild defaultTestCommands
                    (setPreBuild gp (setInstall gi (supplied h (testCommands props))))"
    unfolding h' upd(3) objs(3)
    by (cases "testCommands props") (simp_all add: default_objects supplied_def)
qed

lemma resolveCommands_defined:
  assumes "wf_props h props" and "resolveCommands gi gp props h = ((l, r, t), h')"
  shows "install (h' ! l) \<noteq> None \<and> pre_build (h' ! l) \<noteq> None \<and> build (h' ! l) \<noteq> None"
    and "install (h' ! r) \<noteq> None \<and> pre_build (h' ! r) \<noteq> None \<and> build (h' ! r) \<noteq> None
         \<and> post_build (h' ! r) \<noteq> None"
    and "install (h' ! t) \<noteq> None \<and> pre_build (h' ! t) \<noteq> None \<and> build (h' ! t) \<noteq> None"
proof -
  obtain h3 where d: "destructureCommands gi gp props h = ((l, r, t), h3)"
    and h': "h' = assignDefaults gi gp l r t h3"
    using assms(2) by (auto simp: resolveCommands_def split: prod.splits)
  note refs = destructureCommands_refs(1-3) [OF assms(1) d]
  note def = assignDefaults_defined [OF refs, of gi gp]
  show "install (h' ! l) \<noteq> None \<and> pre_build (h' ! l) \<noteq> None \<and> build (h' ! l) \<noteq> None"
    unfolding h' using def(1-3) by simp
  show "install (h' ! r) \<noteq> None \<and> pre_build (h' ! r) \<noteq> None \<and> build (h' ! r) \<noteq> None
         \<and> post_build (h' ! r) \<noteq> None"
    unfolding h' using def(4-7) by simp
  show "install (h' ! t) \<noteq> None \<and> pre_build (h' ! t) \<noteq> None \<and> build (h' ! t) \<noteq> None"
    unfolding h' using def(8-10) by simp
qed


subsection \<open>The constructor, when it does not throw\<close>

lemma PkgPipeline_constructed:
  assumes "\<not> falsy (codeArtifactDomain props)" and "\<not> falsy (codeArtifactRepo props)"
    and "\<not> falsy (codeArtifactNamespace props)"
    and "resolveCommands (destructuredGlobalInstallCommands props)
           (destructuredGlobalPreBuildCommands props) props h = ((l, r, t), h')"
  shows "\<exists>nm d b dm repo img cmp.
           PkgPipeline hst cid props h =
             (Inr (),
              ConstructSuper cid
              # createResources hst nm d b dm repo img cmp (h' ! l) (h' ! t) (h' ! r),
              h')"
  using assms by (simp add: PkgPipeline_def Let_def) blast

lemma phaseCommands_createResources:
  "phaseCommands ''LintPipelineProject'' ''install''
     (ConstructSuper cid # createResources hst nm d b dm repo img cmp lint test release)
     = install lint"
  "phaseCommands ''LintPipelineProject'' ''pre_build''
     (ConstructSuper cid # createResources hst nm d b dm repo img cmp lint test release)
     = pre_build lint"
  "phaseCommands ''LintPipelineProject'' ''build''
     (ConstructSuper cid # createResources hst nm d b dm repo img cmp lint test release)
     = build lint"
  "phaseCommands ''TestPipelineProject'' ''install''
     (ConstructSuper cid # createResources hst nm d b dm repo img cmp lint test release)
     = install test"
  "phaseCommands ''TestPipelineProject'' ''pre_build''
     (ConstructSuper cid # createResources hst nm d b dm repo img cmp lint test release)
     = pre_build test"
  "phaseCommands ''TestPipelineProject'' ''build''
     (ConstructSuper cid # createResources hst nm d b dm repo img cmp lint test release)
     = build test"
  "phaseCommands ''PublishPipelineProject'' ''install''
     (ConstructSuper cid # createResources hst nm d b dm repo img cmp lint test release)
     = install release"
  "phaseCommands ''PublishPipelineProject'' ''pre_build''
     (ConstructSuper cid # createResources hst nm d b dm repo img cmp lint test release)
     = pre_build release"
  "phaseCommands ''PublishPipelineProject'' ''build''
     (ConstructSuper cid # createResources hst nm d b dm repo img cmp lint test release)
     = build release"
  "phaseCommands ''PublishPipelineProject'' ''post_build''
     (ConstructSuper cid # createResources hst nm d b dm repo img cmp lint test release)
     = post_build release"
  by (simp_all add: createResources_def addCodeArtifactGetAuthPolicies_def Let_def)


lemma PkgPipeline_phases:
  assumes "\<not> falsy (codeArtifactDomain props)" and "\<not> falsy (codeArtifactRepo props)"
    and "\<not> falsy (codeArtifactNamespace props)"
    and "resolveCommands (destructuredGlobalInstallCommands props)
           (destructuredGlobalPreBuildCommands props) props h = ((l, r, t), h')"
  shows "phaseCommands ''LintPipelineProject'' ''install''
           (fst (snd (PkgPipeline hst cid props h))) = install (h' ! l)"
    and "phaseCommands ''LintPipelineProject'' ''pre_build''
           (fst (snd (PkgPipeline hst cid props h))) = pre_build (h' ! l)"
    and "phaseCommands ''LintPipelineProject'' ''build''
           (fst (snd (PkgPipeline hst cid props h))) = build (h' ! l)"
    and "phaseCommands ''TestPipelineProject'' ''install''
           (fst (snd (PkgPipeline hst cid props h))) = install (h' ! t)"
    and "phaseCommands ''TestPipelineProject'' ''pre_build''
           (fst (snd (PkgPipeline hst cid props h))) = pre_build (h' ! t)"
    and "phaseCommands ''TestPipelineProject'' ''build''
           (fst (snd (PkgPipeline hst cid props h))) = build (h' ! t)"
    and "phaseCommands ''PublishPipelineProject'' ''install''
           (fst (snd (PkgPipeline hst cid props h))) = install (h' ! r)"
    and "phaseCommands ''PublishPipelineProject'' ''pre_build''
           (fst (snd (PkgPipeline hst cid props h))) = pre_build (h' ! r)"
    and "phaseCommands ''PublishPipelineProject'' ''build''
           (fst (snd (PkgPipeline hst cid props h))) = build (h' ! r)"
    and "phaseCommands ''PublishPipelineProject'' ''post_build''
           (fst (snd (PkgPipeline hst cid props h))) = post_build (h' ! r)"
proof -
  obtain nm d b dm repo img cmp where
    "PkgPipeline hst cid props h =
       (Inr (),
        ConstructSuper cid
        # createResources hst nm d b dm repo img cmp (h' ! l) (h' ! t) (h' ! r), h')"
    using PkgPipeline_constructed [OF assms, of hst cid] by blast
  then have ops: "fst (snd (PkgPipeline hst cid props h)) =
      ConstructSuper cid
      # createResources hst nm d b dm repo img cmp (h' ! l) (h' ! t) (h' ! r)"
    by simp
  show "phaseCommands ''LintPipelineProject'' ''install''
           (fst (snd (PkgPipeline hst cid props h))) = install (h' ! l)"
    and "phaseCommands ''LintPipelineProject'' ''pre_build''
           (fst (snd (PkgPipeline hst cid props h))) = pre_build (h' ! l)"
    and "phaseCommands ''LintPipelineProject'' ''build''
           (fst (snd (PkgPipeline hst cid props h))) = build (h' ! l)"
    and "phaseCommands ''TestPipelineProject'' ''install''
           (fst (snd (PkgPipeline hst cid props h))) = install (h' ! t)"
    and "phaseCommands ''TestPipelineProject'' ''pre_build''
           (fst (snd (PkgPipeline hst cid props h))) = pre_build (h' ! t)"
    and "phaseCommands ''TestPipelineProject'' ''build''
           (fst (snd (PkgPipeline hst cid props h))) = build (h' ! t)"
    and "phaseCommands ''PublishPipelineProject'' ''install''
           (fst (snd (PkgPipeline hst cid props h))) = install (h' ! r)"
    and "phaseCommands ''PublishPipelineProject'' ''pre_build''
           (fst (snd (PkgPipeline hst cid props h))) = pre_build (h' ! r)"
    and "phaseCommands ''PublishPipelineProject'' ''build''
           (fst (snd (PkgPipeline hst cid props h))) = build (h' ! r)"
    and "phaseCommands ''PublishPipelineProject'' ''post_build''
           (fst (snd (PkgPipeline hst cid props h))) = post_build (h' ! r)"
    unfolding ops by (rule phaseCommands_createResources)+
qed

subsection \<open>The check of the CodeArtifact properties\<close>

text \<open>
  Claim C9. The constructor throws an \<^verbatim>\<open>Error\<close> when one of \<^verbatim>\<open>codeArtifactDomain\<close>,
  \<^verbatim>\<open>codeArtifactRepo\<close> and \<^verbatim>\<open>codeArtifactNamespace\<close> is absent or the empty string, and it
  does so before it creates any resource: only the constructor of the base class has run,
  and the store is untouched.
\<close>

theorem missing_code_artifact_property_throws_first:
  assumes "codeArtifactDomain props = None \<or> codeArtifactDomain props = Some []
           \<or> codeArtifactRepo props = None \<or> codeArtifactRepo props = Some []
           \<or> codeArtifactNamespace props = None \<or> codeArtifactNamespace props = Some []"
  shows "PkgPipeline hst cid props h =
           (Inl (Error
              ''codeArtifactDomain, codeArtifactRepo, and codeArtifactNamespace must be defined''),
            [ConstructSuper cid], h)
       \<and> filter isResource (fst (snd (PkgPipeline hst cid props h))) = []"
proof -
  from assms have "falsy (codeArtifactDomain props) \<or> falsy (codeArtifactRepo props)
      \<or> falsy (codeArtifactNamespace props)"
    by (auto simp: falsy_def)
  then show ?thesis
    by (simp add: PkgPipeline_def Let_def throwCodeArtifact_def)
qed

text \<open>The properties of the test with the domain absent, the repository empty, and the
  namespace empty.\<close>

theorem missing_code_artifact_property_throws_first_witness:
  "filter isResource
     (fst (snd (PkgPipeline testHost ''TestPkgPipeline''
                  (testProps\<lparr>codeArtifactDomain := None\<rparr>) []))) = []
   \<and> filter isResource
     (fst (snd (PkgPipeline testHost ''TestPkgPipeline''
                  (testProps\<lparr>codeArtifactRepo := Some []\<rparr>) []))) = []
   \<and> fst (PkgPipeline testHost ''TestPkgPipeline''
            (testProps\<lparr>codeArtifactNamespace := Some []\<rparr>) [])
     = Inl (Error
         ''codeArtifactDomain, codeArtifactRepo, and codeArtifactNamespace must be defined'')"
proof -
  have a: "codeArtifactDomain (testProps\<lparr>codeArtifactDomain := None\<rparr>) = None" by simp
  have b: "codeArtifactRepo (testProps\<lparr>codeArtifactRepo := Some []\<rparr>) = Some []" by simp
  have c: "codeArtifactNamespace (testProps\<lparr>codeArtifactNamespace := Some []\<rparr>) = Some []"
    by simp
  show ?thesis
    using missing_code_artifact_property_throws_first
            [of "testProps\<lparr>codeArtifactDomain := None\<rparr>" testHost "''TestPkgPipeline''" "[]"]
          missing_code_artifact_property_throws_first
            [of "testProps\<lparr>codeArtifactRepo := Some []\<rparr>" testHost "''TestPkgPipeline''" "[]"]
          missing_code_artifact_property_throws_first
            [of "testProps\<lparr>codeArtifactNamespace := Some []\<rparr>" testHost
                "''TestPkgPipeline''" "[]"]
          a b c
    by simp
qed

subsection \<open>The defaults of the commands\<close>

text \<open>
  When the command objects the caller supplies are different objects, every phase of the
  three build specifications gets the commands the documentation of the properties
  states: the value supplied, or else the global install commands, the global pre-build
  commands, the default build commands of the stage, and \<^verbatim>\<open>npx semantic-release\<close> for
  the post-build phase of the release.
\<close>

lemma distinct_command_objects_get_documented_defaults:
  assumes "\<not> falsy (codeArtifactDomain props)" and "\<not> falsy (codeArtifactRepo props)"
    and "\<not> falsy (codeArtifactNamespace props)"
    and "wf_props h props"
    and "apart (lintCommands props) (releaseCommands props)"
    and "apart (lintCommands props) (testCommands props)"
    and "apart (releaseCommands props) (testCommands props)"
  shows "phaseCommands ''LintPipelineProject'' ''install''
           (fst (snd (PkgPipeline hst cid props h)))
         = Some (orElse (install (supplied h (lintCommands props)))
                   (destructuredGlobalInstallCommands props))"
    and "phaseCommands ''LintPipelineProject'' ''pre_build''
           (fst (snd (PkgPipeline hst cid props h)))
         = Some (orElse (pre_build (supplied h (lintCommands props)))
                   (destructuredGlobalPreBuildCommands props))"
    and "phaseCommands ''LintPipelineProject'' ''build''
           (fst (snd (PkgPipeline hst cid props h)))
         = Some (orElse (build (supplied h (lintCommands props))) [''npm run lint''])"
    and "phaseCommands ''TestPipelineProject'' ''install''
           (fst (snd (PkgPipeline hst cid props h)))
         = Some (orElse (install (supplied h (testCommands props)))
                   (destructuredGlobalInstallCommands props))"
    and "phaseCommands ''TestPipelineProject'' ''pre_build''
           (fst (snd (PkgPipeline hst cid props h)))
         = Some (orElse (pre_build (supplied h (testCommands props)))
                   (destructuredGlobalPreBuildCommands props))"
    and "phaseCommands ''TestPipelineProject'' ''build''
           (fst (snd (PkgPipeline hst cid props h)))
         = Some (orElse (build (supplied h (testCommands props))) [''npm run test''])"
    and "phaseCommands ''PublishPipelineProject'' ''install''
           (fst (snd (PkgPipeline hst cid props h)))
         = Some (orElse (install (supplied h (releaseCommands props)))
                   (destructuredGlobalInstallCommands props))"
    and "phaseCommands ''PublishPipelineProject'' ''pre_build''
           (fst (snd (PkgPipeline hst cid props h)))
         = Some (orElse (pre_build (supplied h (releaseCommands props)))
                   (destructuredGlobalPreBuildCommands props))"
    and "phaseCommands ''PublishPipelineProject'' ''build''
           (fst (snd (PkgPipeline hst cid props h)))
         = Some (orElse (build (supplied h (releaseCommands props))) [''npm run build''])"
    and "phaseCommands ''PublishPipelineProject'' ''post_build''
           (fst (snd (PkgPipeline hst cid props h)))
         = Some (orElse (post_build (supplied h (releaseCommands props)))
                   [''npx semantic-release''])"
proof -
  obtain l r t h' where rc:
    "resolveCommands (destructuredGlobalInstallCommands props)
       (destructuredGlobalPreBuildCommands props) props h = ((l, r, t), h')"
    by (metis prod.exhaust)
  note ph = PkgPipeline_phases [OF assms(1-3) rc, of hst cid]
  note ob = resolveCommands_distinct [OF assms(4-7) rc]
  show "phaseCommands ''LintPipelineProject'' ''install''
           (fst (snd (PkgPipeline hst cid props h)))
         = Some (orElse (install (supplied h (lintCommands props)))
                   (destructuredGlobalInstallCommands props))"
    unfolding ph ob by simp
  show "phaseCommands ''LintPipelineProject'' ''pre_build''
           (fst (snd (PkgPipeline hst cid props h)))
         = Some (orElse (pre_build (supplied h (lintCommands props)))
                   (destructuredGlobalPreBuildCommands props))"
    unfolding ph ob by simp
  show "phaseCommands ''LintPipelineProject'' ''build''
           (fst (snd (PkgPipeline hst cid props h)))
         = Some (orElse (build (supplied h (lintCommands props))) [''npm run lint''])"
    unfolding ph ob by (simp add: defaultLintCommands_def)
  show "phaseCommands ''TestPipelineProject'' ''install''
           (fst (snd (PkgPipeline hst cid props h)))
         = Some (orElse (install (supplied h (testCommands props)))
                   (destructuredGlobalInstallCommands props))"
    unfolding ph ob by simp
  show "phaseCommands ''TestPipelineProject'' ''pre_build''
           (fst (snd (PkgPipeline hst cid props h)))
         = Some (orElse (pre_build (supplied h (testCommands props)))
                   (destructuredGlobalPreBuildCommands props))"
    unfolding ph ob by simp
  show "phaseCommands ''TestPipelineProject'' ''build''
           (fst (snd (PkgPipeline hst cid props h)))
         = Some (orElse (build (supplied h (testCommands props))) [''npm run test''])"
    unfolding ph ob by (simp add: defaultTestCommands_def)
  show "phaseCommands ''PublishPipelineProject'' ''install''
           (fst (snd (PkgPipeline hst cid props h)))
         = Some (orElse (install (supplied h (releaseCommands props)))
                   (destructuredGlobalInstallCommands props))"
    unfolding ph ob by simp
  show "phaseCommands ''PublishPipelineProject'' ''pre_build''
           (fst (snd (PkgPipeline hst cid props h)))
         = Some (orElse (pre_build (supplied h (releaseCommands props)))
                   (destructuredGlobalPreBuildCommands props))"
    unfolding ph ob by simp
  show "phaseCommands ''PublishPipelineProject'' ''build''
           (fst (snd (PkgPipeline hst cid props h)))
         = Some (orElse (build (supplied h (releaseCommands props))) [''npm run build''])"
    unfolding ph ob by (simp add: defaultBuildCommands_def)
  show "phaseCommands ''PublishPipelineProject'' ''post_build''
           (fst (snd (PkgPipeline hst cid props h)))
         = Some (orElse (post_build (supplied h (releaseCommands props)))
                   [''npx semantic-release''])"
    unfolding ph ob by (simp add: defaultReleaseCommands_def)
qed

text \<open>
  Shared or not, the objects end with every phase defined that a build specification
  reads.
\<close>

lemma command_phases_always_defined:
  assumes "\<not> falsy (codeArtifactDomain props)" and "\<not> falsy (codeArtifactRepo props)"
    and "\<not> falsy (codeArtifactNamespace props)"
    and "wf_props h props"
  shows "phaseCommands ''LintPipelineProject'' ''install''
           (fst (snd (PkgPipeline hst cid props h))) \<noteq> None
       \<and> phaseCommands ''LintPipelineProject'' ''pre_build''
           (fst (snd (PkgPipeline hst cid props h))) \<noteq> None
       \<and> phaseCommands ''LintPipelineProject'' ''build''
           (fst (snd (PkgPipeline hst cid props h))) \<noteq> None"
    and "phaseCommands ''TestPipelineProject'' ''install''
           (fst (snd (PkgPipeline hst cid props h))) \<noteq> None
       \<and> phaseCommands ''TestPipelineProject'' ''pre_build''
           (fst (snd (PkgPipeline hst cid props h))) \<noteq> None
       \<and> phaseCommands ''TestPipelineProject'' ''build''
           (fst (snd (PkgPipeline hst cid props h))) \<noteq> None"
    and "phaseCommands ''PublishPipelineProject'' ''install''
           (fst (snd (PkgPipeline hst cid props h))) \<noteq> None
       \<and> phaseCommands ''PublishPipelineProject'' ''pre_build''
           (fst (snd (PkgPipeline hst cid props h))) \<noteq> None
       \<and> phaseCommands ''PublishPipelineProject'' ''build''
           (fst (snd (PkgPipeline hst cid props h))) \<noteq> None
       \<and> phaseCommands ''PublishPipelineProject'' ''post_build''
           (fst (snd (PkgPipeline hst cid props h))) \<noteq> None"
proof -
  obtain l r t h' where rc:
    "resolveCommands (destructuredGlobalInstallCommands props)
       (destructuredGlobalPreBuildCommands props) props h = ((l, r, t), h')"
    by (metis prod.exhaust)
  note ph = PkgPipeline_phases [OF assms(1-3) rc, of hst cid]
  note df = resolveCommands_defined [OF assms(4) rc]
  show "phaseCommands ''LintPipelineProject'' ''install''
           (fst (snd (PkgPipeline hst cid props h))) \<noteq> None
       \<and> phaseCommands ''LintPipelineProject'' ''pre_build''
           (fst (snd (PkgPipeline hst cid props h))) \<noteq> None
       \<and> phaseCommands ''LintPipelineProject'' ''build''
           (fst (snd (PkgPipeline hst cid props h))) \<noteq> None"
    unfolding ph by (rule df(1))
  show "phaseCommands ''TestPipelineProject'' ''install''
           (fst (snd (PkgPipeline hst cid props h))) \<noteq> None
       \<and> phaseCommands ''TestPipelineProject'' ''pre_build''
           (fst (snd (PkgPipeline hst cid props h))) \<noteq> None
       \<and> phaseCommands ''TestPipelineProject'' ''build''
           (fst (snd (PkgPipeline hst cid props h))) \<noteq> None"
    unfolding ph by (rule df(3))
  show "phaseCommands ''PublishPipelineProject'' ''install''
           (fst (snd (PkgPipeline hst cid props h))) \<noteq> None
       \<and> phaseCommands ''PublishPipelineProject'' ''pre_build''
           (fst (snd (PkgPipeline hst cid props h))) \<noteq> None
       \<and> phaseCommands ''PublishPipelineProject'' ''build''
           (fst (snd (PkgPipeline hst cid props h))) \<noteq> None
       \<and> phaseCommands ''PublishPipelineProject'' ''post_build''
           (fst (snd (PkgPipeline hst cid props h))) \<noteq> None"
    unfolding ph by (rule df(2))
qed

text \<open>
  One empty object supplied both as \<^verbatim>\<open>lintCommands\<close> and as \<^verbatim>\<open>testCommands\<close>: the
  assignment to \<^verbatim>\<open>lintCommands.build\<close> is seen through \<^verbatim>\<open>testCommands\<close>.
\<close>

lemma shared_lint_test_object:
  "resolveCommands gi gp (testProps\<lparr>lintCommands := Some 0, testCommands := Some 0\<rparr>)
     [noCommands]
   = ((0, 1, 0),
      [\<lparr>install = Some gi, pre_build = Some gp, build = Some [''npm run lint''],
        post_build = None\<rparr>,
       \<lparr>install = Some gi, pre_build = Some gp, build = Some [''npm run build''],
        post_build = Some [''npx semantic-release'']\<rparr>])"
  by (simp add: resolveCommands_def destructureCommands_def assignDefaults_updates
      orDefault_def alloc_def testProps_def noCommands_def Let_def setInstall_def
      setPreBuild_def setBuild_def setPostBuild_def defaultLintCommands_def
      defaultBuildCommands_def defaultReleaseCommands_def defaultTestCommands_def)

text \<open>
  Claim C10 states that after the defaults each of the three command sets has
  \<^verbatim>\<open>install\<close>, \<^verbatim>\<open>pre_build\<close> and \<^verbatim>\<open>build\<close> defined, \<^verbatim>\<open>build\<close> falling back to the
  default of its own stage. For command objects that are different objects this is
  \<open>distinct_command_objects_get_documented_defaults\<close>. With one object without a
  \<^verbatim>\<open>build\<close> property supplied for both \<^verbatim>\<open>lintCommands\<close> and \<^verbatim>\<open>testCommands\<close>, the build
  phase of the test project is \<^verbatim>\<open>npm run lint\<close>, not the documented default
  \<^verbatim>\<open>npm run test\<close>.
\<close>

theorem shared_commands_object_test_stage_runs_lint:
  "phaseCommands ''TestPipelineProject'' ''build''
     (fst (snd (PkgPipeline testHost ''TestPkgPipeline''
                  (testProps\<lparr>lintCommands := Some 0, testCommands := Some 0\<rparr>)
                  [noCommands])))
     = Some [''npm run lint'']"
proof -
  have a: "\<not> falsy (codeArtifactDomain
              (testProps\<lparr>lintCommands := Some 0, testCommands := Some 0\<rparr>))"
    and b: "\<not> falsy (codeArtifactRepo
              (testProps\<lparr>lintCommands := Some 0, testCommands := Some 0\<rparr>))"
    and c: "\<not> falsy (codeArtifactNamespace
              (testProps\<lparr>lintCommands := Some 0, testCommands := Some 0\<rparr>))"
    by (simp_all add: testProps_def falsy_def)
  show ?thesis
    using PkgPipeline_phases(6) [OF a b c shared_lint_test_object, of testHost
        "''TestPkgPipeline''"]
    by simp
qed

end
